theory Spec2Isabelle
  imports
    Complex_Main
    "HOL-Library.Char_ord"
    "HOL-Library.List_Lexorder"
    "HOL-Library.Sublist"
    "HOL-Library.Multiset"
begin

section \<open>JavaScript strings and numbers\<close>

text \<open>
  A JavaScript string is modelled as a \<open>string\<close>: the list of its code units, restricted
  to the code units below 256 (the Latin-1 range). On that range \<open>toLowerCase\<close> works
  unit by unit: it moves \<open>A\<close>..\<open>Z\<close> and the accented capitals 192..222 (without the
  multiplication sign 215) up by 32 and leaves every other unit alone. The order \<open><\<close> on
  strings is the lexicographic order of the code units, which is what JavaScript's \<open><\<close>
  computes on two strings.
\<close>

definition toLowerCase_unit :: "char \<Rightarrow> char" where
  "toLowerCase_unit c =
     (let n = (of_char c :: nat)
      in if (65 \<le> n \<and> n \<le> 90) \<or> (192 \<le> n \<and> n \<le> 222 \<and> n \<noteq> 215)
         then char_of (n + 32) else c)"

definition toLowerCase :: "string \<Rightarrow> string" where
  "toLowerCase s = map toLowerCase_unit s"

text \<open>\<open>hay.startsWith(needle)\<close> and \<open>hay.includes(needle)\<close>.\<close>

fun startsWith :: "string \<Rightarrow> string \<Rightarrow> bool" where
  "startsWith hay [] = True"
| "startsWith [] (n # ns) = False"
| "startsWith (h # hs) (n # ns) = (h = n \<and> startsWith hs ns)"

fun js_includes :: "string \<Rightarrow> string \<Rightarrow> bool" where
  "js_includes [] needle = (needle = [])"
| "js_includes (h # hs) needle = (startsWith (h # hs) needle \<or> js_includes hs needle)"

text \<open>
  \<open>trim\<close> removes the white space and line terminators at both ends; below 256 these are
  tab, line feed, vertical tab, form feed, carriage return, space and the no-break space.
\<close>

definition isWhiteSpace :: "char \<Rightarrow> bool" where
  "isWhiteSpace c = ((of_char c :: nat) \<in> {9, 10, 11, 12, 13, 32, 160})"

definition trim :: "string \<Rightarrow> string" where
  "trim s = rev (dropWhile isWhiteSpace (rev (dropWhile isWhiteSpace s)))"

text \<open>
  Numbers that the code turns into text are integers; \<open>String(n)\<close> and \<open>`${n}`\<close> give the
  decimal digits, with a minus sign for a negative number. This is JavaScript's output for
  the integers it represents exactly (magnitude up to \<open>2^53\<close>); beyond that JavaScript
  rounds, and from \<open>10^21\<close> on it prints an exponent, which the model does not follow.
  Numbers with a fraction are outside the model.
\<close>

fun digits :: "nat \<Rightarrow> string" where
  "digits n = (if n < 10 then [''0123456789'' ! n]
               else digits (n div 10) @ [''0123456789'' ! (n mod 10)])"

declare digits.simps [simp del]

definition String_of_int :: "int \<Rightarrow> string" where
  "String_of_int i = (if i < 0 then CHR ''-'' # digits (nat (- i)) else digits (nat i))"

text \<open>\<open>v || ''\<close> for a value that is a string or absent (\<open>undefined\<close>, \<open>null\<close>).\<close>

definition or_empty :: "string option \<Rightarrow> string" where
  "or_empty v = (case v of None \<Rightarrow> [] | Some s \<Rightarrow> s)"

text \<open>
  \<open>xs.slice(start, end)\<close>: a negative index counts from the end, and both indices are
  cut to the range of the array.
\<close>

definition slice :: "'a list \<Rightarrow> int \<Rightarrow> int \<Rightarrow> 'a list" where
  "slice xs start fin =
     (let len = int (length xs);
          k = (if start < 0 then max (len + start) 0 else min start len);
          final = (if fin < 0 then max (len + fin) 0 else min fin len)
      in take (nat (final - k)) (drop (nat k) xs))"

text \<open>
  \<open>xs.sort(comparefn)\<close>. The language standard makes the sort stable, and for a consistent
  comparator it fixes the result: the model is the stable insertion sort, which puts each
  element in front of the first later-placed element that the comparator does not put
  before it.
\<close>

fun sort_insert :: "('a \<Rightarrow> 'a \<Rightarrow> int) \<Rightarrow> 'a \<Rightarrow> 'a list \<Rightarrow> 'a list" where
  "sort_insert c x [] = [x]"
| "sort_insert c x (y # ys) = (if c x y \<le> 0 then x # y # ys else y # sort_insert c x ys)"

definition js_sort :: "('a \<Rightarrow> 'a \<Rightarrow> int) \<Rightarrow> 'a list \<Rightarrow> 'a list" where
  "js_sort c xs = foldr (sort_insert c) xs []"


section \<open>JSON values\<close>

text \<open>
  The decoded body of a response whose shape the code does not fix. Numbers are integers
  (printed as above, so faithfully up to magnitude \<open>2^53\<close>), and the entries of an object
  are its properties in their order, each key once.
\<close>

datatype json = JNull | JBool bool | JNum int | JStr string | JArr "json list"
  | JObj "(string \<times> json) list"

text \<open>\<open>parts.join(sep)\<close> on strings.\<close>

fun join :: "string \<Rightarrow> string list \<Rightarrow> string" where
  "join sep [] = []"
| "join sep [x] = x"
| "join sep (x # y # ys) = x @ sep @ join sep (y # ys)"

text \<open>Truthiness, as \<open>&&\<close> and \<open>? :\<close> test it.\<close>

fun js_truthy :: "json \<Rightarrow> bool" where
  "js_truthy JNull = False"
| "js_truthy (JBool b) = b"
| "js_truthy (JNum n) = (n \<noteq> 0)"
| "js_truthy (JStr s) = (s \<noteq> [])"
| "js_truthy (JArr xs) = True"
| "js_truthy (JObj kvs) = True"

text \<open>
  \<open>v.key\<close> for the keys the code reads (\<open>status\<close>, \<open>message\<close>): \<open>None\<close> is
  \<open>undefined\<close>, which is what every value other than an object with that property gives.
  The code reads a property only of a truthy value, so the read never throws.
\<close>

fun get_prop :: "json \<Rightarrow> string \<Rightarrow> json option" where
  "get_prop (JObj kvs) key = map_of kvs key"
| "get_prop v key = None"

text \<open>The conversion to a string that \<open>'text' + v\<close> applies to \<open>v\<close>.\<close>

fun js_toString :: "json \<Rightarrow> string" where
  "js_toString JNull = ''null''"
| "js_toString (JBool b) = (if b then ''true'' else ''false'')"
| "js_toString (JNum n) = String_of_int n"
| "js_toString (JStr s) = s"
| "js_toString (JArr xs) = join '','' (map (\<lambda>x. if x = JNull then [] else js_toString x) xs)"
| "js_toString (JObj kvs) = ''[object Object]''"

text \<open>
  \<open>JSON.stringify(v, null, 2)\<close>: strings are quoted and escaped, and every level of an
  array or object is put on lines of its own, indented by two more spaces.
\<close>

definition hex4 :: "nat \<Rightarrow> string" where
  "hex4 n = map (\<lambda>k. ''0123456789abcdef'' ! ((n div 16 ^ k) mod 16)) [3, 2, 1, 0]"

definition escape_unit :: "char \<Rightarrow> string" where
  "escape_unit c =
     (let n = (of_char c :: nat)
      in if n = 34 then [CHR 0x5C, CHR 0x22]
         else if n = 92 then [CHR 0x5C, CHR 0x5C]
         else if n = 8 then [CHR 0x5C, CHR ''b'']
         else if n = 12 then [CHR 0x5C, CHR ''f'']
         else if n = 10 then [CHR 0x5C, CHR ''n'']
         else if n = 13 then [CHR 0x5C, CHR ''r'']
         else if n = 9 then [CHR 0x5C, CHR ''t'']
         else if n < 32 then [CHR 0x5C, CHR ''u''] @ hex4 n
         else [c])"

definition quote :: "string \<Rightarrow> string" where
  "quote s = [CHR 0x22] @ concat (map escape_unit s) @ [CHR 0x22]"

fun stringify :: "string \<Rightarrow> json \<Rightarrow> string" where
  "stringify ind JNull = ''null''"
| "stringify ind (JBool b) = (if b then ''true'' else ''false'')"
| "stringify ind (JNum n) = String_of_int n"
| "stringify ind (JStr s) = quote s"
| "stringify ind (JArr xs) =
     (if xs = [] then ''[]''
      else ''['' @ [CHR 0x0A] @ (ind @ ''  '')
           @ join ('','' @ [CHR 0x0A] @ (ind @ ''  '')) (map (stringify (ind @ ''  '')) xs)
           @ [CHR 0x0A] @ ind @ '']'')"
| "stringify ind (JObj kvs) =
     (if kvs = [] then ''{}''
      else ''{'' @ [CHR 0x0A] @ (ind @ ''  '')
           @ join ('','' @ [CHR 0x0A] @ (ind @ ''  ''))
               (map (\<lambda>(k, v). quote k @ '': '' @ stringify (ind @ ''  '') v) kvs)
           @ [CHR 0x0A] @ ind @ ''}'')"

definition JSON_stringify :: "json \<Rightarrow> string" where
  "JSON_stringify v = stringify [] v"


section \<open>common.js: fetch wrappers and toasts\<close>

text \<open>
  A thrown value is an error object with its name and its message. The outcome of
  \<open>await fetch(...)\<close> is either such an error (the request never got a response) or a
  response. A response carries what the wrappers read: \<open>ok\<close>, \<open>status\<close>, \<open>statusText\<close>, the
  content-type header (\<open>None\<close> when absent), and the outcomes of reading the body with
  \<open>res.text()\<close> and \<open>res.json()\<close>, each of which may itself throw. The wrappers never look
  into the decoded JSON, so its type is a parameter.
\<close>

datatype js_error = JsError (error_name: string) (message: string)

definition Error :: "string \<Rightarrow> js_error" where
  "Error msg = JsError ''Error'' msg"

datatype http_method = GET | POST

datatype form_value = Field string | File string

record request =
  req_method :: http_method
  req_path :: string
  req_query :: "(string \<times> string) list"
  req_body :: "(string \<times> form_value) list option"
  req_credentials :: string

record 'j response =
  ok :: bool
  status :: nat
  statusText :: string
  content_type :: "string option"
  body_text :: "js_error + string"
  body_json :: "js_error + 'j"

datatype 'j api_value = Json 'j | Text string

text \<open>The request that \<open>apiGET(path)\<close> and \<open>apiPOST(path, body)\<close> hand to \<open>fetch\<close>.\<close>

definition apiGET_request :: "string \<Rightarrow> (string \<times> string) list \<Rightarrow> request" where
  "apiGET_request path query =
     \<lparr>req_method = GET, req_path = path, req_query = query, req_body = None,
      req_credentials = ''same-origin''\<rparr>"

definition apiPOST_request :: "string \<Rightarrow> (string \<times> form_value) list option \<Rightarrow> request" where
  "apiPOST_request path body =
     \<lparr>req_method = POST, req_path = path, req_query = [], req_body = body,
      req_credentials = ''same-origin''\<rparr>"

text \<open>What the wrappers do with the outcome of their \<open>fetch\<close>.\<close>

definition apiGET :: "js_error + 'j response \<Rightarrow> js_error + 'j api_value" where
  "apiGET fetched =
     (case fetched of
        Inl e \<Rightarrow> Inl e
      | Inr res \<Rightarrow>
          if \<not> ok res then Inl (Error (digits (status res) @ '' '' @ statusText res))
          else
            let ct = or_empty (content_type res)
            in if js_includes ct ''application/json''
               then (case body_json res of Inl e \<Rightarrow> Inl e | Inr j \<Rightarrow> Inr (Json j))
               else (case body_text res of Inl e \<Rightarrow> Inl e | Inr t \<Rightarrow> Inr (Text t)))"

definition apiPOST :: "js_error + 'j response \<Rightarrow> js_error + 'j api_value" where
  "apiPOST fetched =
     (case fetched of
        Inl e \<Rightarrow> Inl e
      | Inr res \<Rightarrow>
          if \<not> ok res then
            let text = (case body_text res of Inl e \<Rightarrow> None | Inr t \<Rightarrow> Some t)
            in Inl (Error (if or_empty text \<noteq> [] then or_empty text
                           else digits (status res) @ '' '' @ statusText res))
          else
            let ct = or_empty (content_type res)
            in if js_includes ct ''application/json''
               then (case body_json res of Inl e \<Rightarrow> Inl e | Inr j \<Rightarrow> Inr (Json j))
               else (case body_text res of Inl e \<Rightarrow> Inl e | Inr t \<Rightarrow> Inr (Text t)))"

text \<open>
  The toast container, newest toast first. No caller passes a time to live, so every toast
  gets the default of 6000 ms; the timer that removes a toast is not modelled, so the list
  holds every toast pushed so far.
\<close>

record toast =
  toast_msg :: string
  toast_type :: string
  toast_ttl :: nat

definition pushToast :: "string \<Rightarrow> string \<Rightarrow> toast list \<Rightarrow> toast list" where
  "pushToast msg ty container = \<lparr>toast_msg = msg, toast_type = ty, toast_ttl = 6000\<rparr> # container"


text \<open>
  What a wrapper returned, as a JavaScript value: the decoded JSON, or the body text as a
  string.
\<close>

definition js_value :: "json api_value \<Rightarrow> json" where
  "js_value v = (case v of Json j \<Rightarrow> j | Text t \<Rightarrow> JStr t)"

text \<open>
  An asynchronous listener runs up to its \<open>await\<close>, and the rest of it runs when the
  awaited request settles. In between the page takes other events. A view is therefore
  driven by two kinds of event: a click on its button, which the browser delivers to the
  listener only while the button is not disabled, and the settling of the oldest request in
  flight with the outcome of its \<open>fetch\<close>. Each view keeps the requests it has issued and
  the requests still in flight.
\<close>

datatype 'j net_event = Click | Settle "js_error + 'j response"


section \<open>users.js: the users view\<close>

text \<open>
  A user record as the server sends it: a numeric identifier, a name, and the optional
  email, proxy and salary. The closure variables of \<open>initUsers\<close> and the parts of the page
  it writes make up the state; of the table only the rows of the current page are kept.
  The body of \<open>GET /api/users\<close> is either an array of user records or something else.
\<close>

record user =
  user_id :: int
  name :: string
  email :: "string option"
  proxy :: "string option"
  salary :: "int option"

datatype sort_key = Key_user_id | Key_name

datatype sort_dir = Asc | Desc

datatype users_json = Users_array "user list" | Users_other

record users_state =
  users :: "user list"
  filtered :: "user list"
  page :: int
  sortKey :: sort_key
  sortDir :: sort_dir
  q_value :: string
  countEl_text :: string
  pageInfo_text :: string
  prev_disabled :: bool
  next_disabled :: bool
  tableWrap_rows :: "user list"
  users_toasts :: "toast list"

definition perPage :: nat where
  "perPage = 12"

definition cmp :: "users_state \<Rightarrow> user \<Rightarrow> user \<Rightarrow> sort_key \<Rightarrow> int" where
  "cmp st a b k =
     (let d = (if sortDir st = Asc then 1 else - 1)
      in case k of
           Key_user_id \<Rightarrow>
             if user_id a < user_id b then - 1 * d
             else if user_id a > user_id b then 1 * d
             else 0
         | Key_name \<Rightarrow>
             if name a < name b then - 1 * d
             else if name a > name b then 1 * d
             else 0)"

text \<open>The callback of \<open>users.filter\<close> in \<open>render\<close>.\<close>

definition matches :: "string \<Rightarrow> user \<Rightarrow> bool" where
  "matches q u =
     (let s = toLowerCase q
      in if s = [] then True
         else js_includes
                (toLowerCase (String_of_int (user_id u) @ name u @ or_empty (email u)
                              @ or_empty (proxy u)))
                s)"

definition render :: "users_state \<Rightarrow> users_state" where
  "render st =
     (let filtered' = js_sort (\<lambda>a b. cmp st a b (sortKey st))
                        (filter (matches (q_value st)) (users st));
          pages = max 1 \<lceil>real (length filtered') / real perPage\<rceil>;
          page' = min pages (max 1 (page st))
      in st\<lparr>filtered := filtered',
            countEl_text := digits (length filtered') @ '' results'',
            page := page',
            pageInfo_text := ''Page '' @ String_of_int page' @ '' / '' @ String_of_int pages,
            prev_disabled := (page' \<le> 1),
            next_disabled := (page' \<ge> pages),
            tableWrap_rows :=
              slice filtered' ((page' - 1) * int perPage) (page' * int perPage)\<rparr>)"

text \<open>
  The listeners: a click on a sortable header, on \<open>prev\<close> and on \<open>next\<close>, input in the
  search box, and the two callbacks on the promise of \<open>apiGET('/api/users')\<close>.
\<close>

definition header_click :: "sort_key \<Rightarrow> users_state \<Rightarrow> users_state" where
  "header_click k st =
     render (if sortKey st = k
             then st\<lparr>sortDir := (if sortDir st = Asc then Desc else Asc)\<rparr>
             else st\<lparr>sortKey := k, sortDir := Asc\<rparr>)"

definition prev_click :: "users_state \<Rightarrow> users_state" where
  "prev_click st = render (st\<lparr>page := max 1 (page st - 1)\<rparr>)"

definition next_click :: "users_state \<Rightarrow> users_state" where
  "next_click st = render (st\<lparr>page := page st + 1\<rparr>)"

definition q_input :: "string \<Rightarrow> users_state \<Rightarrow> users_state" where
  "q_input v st = render (st\<lparr>q_value := v, page := 1\<rparr>)"

definition users_loaded :: "js_error + users_json api_value \<Rightarrow> users_state \<Rightarrow> users_state" where
  "users_loaded got st =
     (case got of
        Inr json \<Rightarrow>
          render (st\<lparr>users := (case json of Json (Users_array us) \<Rightarrow> us | _ \<Rightarrow> [])\<rparr>)
      | Inl err \<Rightarrow>
          render (st\<lparr>users_toasts :=
                        pushToast (''Failed to load users: '' @ message err) ''error''
                          (users_toasts st),
                      users := []\<rparr>))"

definition initUsers :: users_state where
  "initUsers =
     \<lparr>users = [], filtered = [], page = 1, sortKey = Key_user_id, sortDir = Asc,
      q_value = [], countEl_text = [], pageInfo_text = [], prev_disabled = False,
      next_disabled = False, tableWrap_rows = [], users_toasts = []\<rparr>"


section \<open>attendance.js: the attendance view\<close>

text \<open>
  The body of \<open>GET /api/attendance\<close> is an array of records with a name and a timestamp,
  or something else. The state holds the filter inputs, the HTML of the table body and the
  apply button. \<open>fmt\<close> formats a timestamp with the locale of the browser, so the
  formatter is a parameter. \<open>switchMode\<close>, which only shows and hides the date inputs, is
  left out.
\<close>

record att_record =
  att_name :: string
  timestamp :: string

datatype att_json = Att_array "att_record list" | Att_other

record att_state =
  filterType_value :: string
  singleDate_value :: string
  startDate_value :: string
  endDate_value :: string
  recordsBody_html :: string
  apply_disabled :: bool
  att_toasts :: "toast list"
  att_requests :: "request list"
  att_inflight :: "request list"

text \<open>\<open>params.set(key, v)\<close> on the entries of a \<open>URLSearchParams\<close>.\<close>

fun params_set :: "string \<Rightarrow> string \<Rightarrow> (string \<times> string) list \<Rightarrow> (string \<times> string) list" where
  "params_set key v [] = [(key, v)]"
| "params_set key v ((k, w) # ps) =
     (if k = key then (k, v) # filter (\<lambda>p. fst p \<noteq> key) ps else (k, w) # params_set key v ps)"

text \<open>The one-cell rows of the table body share their markup.\<close>

definition message_row :: "string \<Rightarrow> string" where
  \<open>message_row text = ''<tr><td class="px-4 py-2" colspan="3">'' @ text @ ''</td></tr>''\<close>

definition record_row :: "(string \<Rightarrow> string) \<Rightarrow> att_record \<Rightarrow> string" where
  \<open>record_row fmt r =
     ''\<newline>        <tr>\<newline>          <td class="px-4 py-2">'' @ att_name r
     @ ''</td>\<newline>          <td class="px-4 py-2">'' @ timestamp r
     @ ''</td>\<newline>          <td class="px-4 py-2">'' @ fmt (timestamp r)
     @ ''</td>\<newline>        </tr>\<newline>      ''\<close>

text \<open>
  \<open>load\<close> up to its \<open>await\<close>: it builds the query, shows the loading row and issues the
  request. The URL is kept as its path and the entries of its query.
\<close>

definition load :: "att_state \<Rightarrow> att_state" where
  "load st =
     (let mode = filterType_value st;
          params0 = params_set ''filter_type'' mode [];
          params1 = (if mode = ''single'' \<and> singleDate_value st \<noteq> []
                     then params_set ''date'' (singleDate_value st) params0 else params0);
          params2 = (if mode = ''range'' \<and> startDate_value st \<noteq> [] \<and> endDate_value st \<noteq> []
                     then params_set ''end_date'' (endDate_value st)
                            (params_set ''start_date'' (startDate_value st)
                               (params_set ''filter_type'' ''range'' params1))
                     else params1);
          req = apiGET_request ''/api/attendance'' params2
      in st\<lparr>recordsBody_html := message_row ''Loading...'',
            att_requests := att_requests st @ [req],
            att_inflight := att_inflight st @ [req]\<rparr>)"

text \<open>The rest of \<open>load\<close>, once the request has settled.\<close>

definition load_resume ::
  "(string \<Rightarrow> string) \<Rightarrow> js_error + att_json response \<Rightarrow> att_state \<Rightarrow> att_state" where
  "load_resume fmt fetched st =
     (case apiGET fetched of
        Inr data \<Rightarrow>
          (case data of
             Json (Att_array rows) \<Rightarrow>
               if length rows = 0 then st\<lparr>recordsBody_html := message_row ''No records''\<rparr>
               else st\<lparr>recordsBody_html := join [] (map (record_row fmt) rows)\<rparr>
           | _ \<Rightarrow> st\<lparr>recordsBody_html := message_row ''No data''\<rparr>)
      | Inl e \<Rightarrow>
          st\<lparr>recordsBody_html := message_row (''Error: '' @ message e),
             att_toasts := pushToast (''Failed to load attendance: '' @ message e) ''error''
                             (att_toasts st)\<rparr>)"

definition att_step ::
  "(string \<Rightarrow> string) \<Rightarrow> att_json net_event \<Rightarrow> att_state \<Rightarrow> att_state" where
  "att_step fmt ev st =
     (case ev of
        Click \<Rightarrow> if apply_disabled st then st else load st
      | Settle fetched \<Rightarrow>
          (case att_inflight st of
             [] \<Rightarrow> st
           | r # rs \<Rightarrow> load_resume fmt fetched (st\<lparr>att_inflight := rs\<rparr>)))"

definition att_run ::
  "(string \<Rightarrow> string) \<Rightarrow> att_state \<Rightarrow> att_json net_event list \<Rightarrow> att_state" where
  "att_run fmt st evs = foldl (\<lambda>s ev. att_step fmt ev s) st evs"


section \<open>register.js: the register view\<close>

text \<open>
  The form fields, the files selected in the image input (by name), the visibility of the
  preview and of its placeholder, and the register button. The listeners that show the
  preview of a selected file and that swallow the Enter key issue no request and are left
  out.
\<close>

record reg_state =
  name_value :: string
  email_value :: string
  proxy_value :: string
  salary_value :: string
  image_files :: "string list"
  preview_hidden :: bool
  noprev_hidden :: bool
  btnRegister_disabled :: bool
  btnRegister_text :: string
  reg_toasts :: "toast list"
  reg_requests :: "request list"
  reg_inflight :: "request list"

text \<open>The click listener of the register button up to its \<open>await\<close>.\<close>

definition register_click :: "reg_state \<Rightarrow> reg_state" where
  "register_click st =
     (let name = trim (name_value st)
      in if name = [] then st\<lparr>reg_toasts := pushToast ''Name is required'' ''error'' (reg_toasts st)\<rparr>
         else
           (case image_files st of
              [] \<Rightarrow> st\<lparr>reg_toasts := pushToast ''Upload a face image'' ''error'' (reg_toasts st)\<rparr>
            | file # others \<Rightarrow>
                let fd = [(''name'', Field name)]
                         @ (if email_value st \<noteq> [] then [(''email'', Field (trim (email_value st)))]
                            else [])
                         @ (if proxy_value st \<noteq> [] then [(''proxy'', Field (trim (proxy_value st)))]
                            else [])
                         @ (if salary_value st \<noteq> []
                            then [(''salary'', Field (trim (salary_value st)))] else [])
                         @ [(''image'', File file)];
                    req = apiPOST_request ''/register'' (Some fd)
                in st\<lparr>btnRegister_disabled := True,
                      btnRegister_text := ''Uploading...'',
                      reg_requests := reg_requests st @ [req],
                      reg_inflight := reg_inflight st @ [req]\<rparr>))"

text \<open>The rest of the listener, once the request has settled.\<close>

definition register_resume :: "js_error + json response \<Rightarrow> reg_state \<Rightarrow> reg_state" where
  "register_resume fetched st =
     (let st' =
        (case apiPOST fetched of
           Inr v \<Rightarrow>
             let data = js_value v
             in if js_truthy data \<and> get_prop data ''status'' = Some (JStr ''success'')
                then st\<lparr>reg_toasts := pushToast ''Registered successfully'' ''info'' (reg_toasts st),
                        name_value := [], email_value := [], proxy_value := [],
                        salary_value := [], image_files := [],
                        preview_hidden := True, noprev_hidden := False\<rparr>
                else
                  let msg = (if js_truthy data
                             then (case get_prop data ''message'' of
                                     Some m \<Rightarrow> if js_truthy m then js_toString m
                                               else ''Unknown server response''
                                   | None \<Rightarrow> ''Unknown server response'')
                             else ''Unknown server response'')
                  in st\<lparr>reg_toasts := pushToast (''Registration error: '' @ msg) ''error''
                                         (reg_toasts st)\<rparr>
         | Inl e \<Rightarrow>
             st\<lparr>reg_toasts := pushToast (''Register failed: '' @ message e) ''error''
                                (reg_toasts st)\<rparr>)
      in st'\<lparr>btnRegister_disabled := False, btnRegister_text := ''Register''\<rparr>)"

definition reg_step :: "json net_event \<Rightarrow> reg_state \<Rightarrow> reg_state" where
  "reg_step ev st =
     (case ev of
        Click \<Rightarrow> if btnRegister_disabled st then st else register_click st
      | Settle fetched \<Rightarrow>
          (case reg_inflight st of
             [] \<Rightarrow> st
           | r # rs \<Rightarrow> register_resume fetched (st\<lparr>reg_inflight := rs\<rparr>)))"

definition reg_run :: "reg_state \<Rightarrow> json net_event list \<Rightarrow> reg_state" where
  "reg_run st evs = foldl (\<lambda>s ev. reg_step ev s) st evs"


section \<open>register.js: the mark-attendance button of the dashboard\<close>

text \<open>
  The button, the element that shows the result, the toasts and the requests of the button.
  The health line, which \<open>initDashboard\<close> fetches once when the page loads, is left out.
\<close>

record dash_state =
  btnMark_disabled :: bool
  attResult_text :: string
  dash_toasts :: "toast list"
  dash_requests :: "request list"
  dash_inflight :: "request list"

text \<open>The click listener up to the \<open>await\<close> of its POST.\<close>

definition mark_click :: "dash_state \<Rightarrow> dash_state" where
  "mark_click st =
     (let req = apiPOST_request ''/mark_attendance'' None
      in st\<lparr>btnMark_disabled := True,
            attResult_text := ''Processing...'',
            dash_requests := dash_requests st @ [req],
            dash_inflight := dash_inflight st @ [req]\<rparr>)"

text \<open>The end of the outer \<open>try\<close>, its \<open>catch\<close> and its \<open>finally\<close>.\<close>

definition mark_show :: "json api_value \<Rightarrow> dash_state \<Rightarrow> dash_state" where
  "mark_show result st =
     st\<lparr>attResult_text := JSON_stringify (js_value result),
        dash_toasts := pushToast ''Attendance processed'' ''info'' (dash_toasts st)\<rparr>"

definition mark_failed :: "js_error \<Rightarrow> dash_state \<Rightarrow> dash_state" where
  "mark_failed e st =
     st\<lparr>dash_toasts := pushToast (''Attendance failed: '' @ message e) ''error'' (dash_toasts st),
        attResult_text := message e\<rparr>"

definition mark_finally :: "dash_state \<Rightarrow> dash_state" where
  "mark_finally st = st\<lparr>btnMark_disabled := False\<rparr>"

text \<open>
  The listener once the POST has settled: its result is shown, or the inner \<open>catch\<close>
  issues the GET. Then the listener once that GET has settled.
\<close>

definition mark_resume_post :: "js_error + json response \<Rightarrow> dash_state \<Rightarrow> dash_state" where
  "mark_resume_post fetched st =
     (case apiPOST fetched of
        Inr result \<Rightarrow> mark_finally (mark_show result st)
      | Inl err \<Rightarrow>
          let req = apiGET_request ''/mark_attendance'' []
          in st\<lparr>dash_requests := dash_requests st @ [req],
                dash_inflight := dash_inflight st @ [req]\<rparr>)"

definition mark_resume_get :: "js_error + json response \<Rightarrow> dash_state \<Rightarrow> dash_state" where
  "mark_resume_get fetched st =
     (case apiGET fetched of
        Inr result \<Rightarrow> mark_finally (mark_show result st)
      | Inl e \<Rightarrow> mark_finally (mark_failed e st))"

definition dash_step :: "json net_event \<Rightarrow> dash_state \<Rightarrow> dash_state" where
  "dash_step ev st =
     (case ev of
        Click \<Rightarrow> if btnMark_disabled st then st else mark_click st
      | Settle fetched \<Rightarrow>
          (case dash_inflight st of
             [] \<Rightarrow> st
           | r # rs \<Rightarrow>
               if req_method r = POST then mark_resume_post fetched (st\<lparr>dash_inflight := rs\<rparr>)
               else mark_resume_get fetched (st\<lparr>dash_inflight := rs\<rparr>)))"

definition dash_run :: "dash_state \<Rightarrow> json net_event list \<Rightarrow> dash_state" where
  "dash_run st evs = foldl (\<lambda>s ev. dash_step ev s) st evs"


section \<open>The properties, stated\<close>

text \<open>The page index lies between 1 and the number of pages of twelve rows.\<close>

definition page_in_range :: "users_state \<Rightarrow> bool" where
  "page_in_range st =
     (1 \<le> page st \<and> page st \<le> max 1 \<lceil>real (length (filtered st)) / 12\<rceil>)"

text \<open>
  A list of users is in the order of a key and a direction, and two users agree on a key.
\<close>

definition ordered_by :: "sort_key \<Rightarrow> sort_dir \<Rightarrow> user list \<Rightarrow> bool" where
  "ordered_by k d xs =
     (case k of
        Key_user_id \<Rightarrow>
          (if d = Asc then sorted (map user_id xs) else sorted (rev (map user_id xs)))
      | Key_name \<Rightarrow>
          (if d = Asc then sorted (map name xs) else sorted (rev (map name xs))))"

definition same_key :: "sort_key \<Rightarrow> user \<Rightarrow> user \<Rightarrow> bool" where
  "same_key k a b =
     (case k of Key_user_id \<Rightarrow> user_id a = user_id b | Key_name \<Rightarrow> name a = name b)"


text \<open>
  The register POST came back and the \<open>status\<close> of its body is \<open>'success'\<close>.
\<close>

definition register_succeeded :: "js_error + json response \<Rightarrow> bool" where
  "register_succeeded fetched =
     (case apiPOST fetched of
        Inr v \<Rightarrow> get_prop (js_value v) ''status'' = Some (JStr ''success'')
      | Inl e \<Rightarrow> False)"

text \<open>
  Nothing is in flight, or one request is and the button that started it is disabled.
\<close>

definition held :: "request list \<Rightarrow> bool \<Rightarrow> bool" where
  "held inflight disabled = (inflight = [] \<or> (length inflight = 1 \<and> disabled))"


section \<open>Example data\<close>

definition u_amy :: user where
  "u_amy = \<lparr>user_id = 1, name = ''Amy'', email = Some ''amy@x.org'', proxy = None, salary = None\<rparr>"

definition u_bob :: user where
  "u_bob = \<lparr>user_id = 2, name = ''bob'', email = None, proxy = Some ''P7'', salary = Some 10\<rparr>"

definition u_zed :: user where
  "u_zed = \<lparr>user_id = 1, name = ''Zed'', email = None, proxy = None, salary = None\<rparr>"

definition st3 :: users_state where
  "st3 = initUsers\<lparr>users := [u_bob, u_amy, u_zed]\<rparr>"

definition st13 :: users_state where
  "st13 = initUsers\<lparr>users := replicate 13 u_amy\<rparr>"

text \<open>
  Responses: a successful one with a JSON body, a successful one with a text body, and a
  failed one with a status, a reason and a body text.
\<close>

definition res_json :: "'j \<Rightarrow> 'j response" where
  "res_json j =
     \<lparr>ok = True, status = 200, statusText = ''OK'',
      content_type = Some ''application/json; charset=utf-8'',
      body_text = Inr [], body_json = Inr j\<rparr>"

definition res_text :: "string \<Rightarrow> 'j response" where
  "res_text t =
     \<lparr>ok = True, status = 200, statusText = ''OK'', content_type = Some ''text/html'',
      body_text = Inr t, body_json = Inl (JsError ''SyntaxError'' ''Unexpected token'')\<rparr>"

definition res_failed :: "nat \<Rightarrow> string \<Rightarrow> string \<Rightarrow> 'j response" where
  "res_failed code reason t =
     \<lparr>ok = False, status = code, statusText = reason, content_type = None,
      body_text = Inr t, body_json = Inl (JsError ''SyntaxError'' ''Unexpected token'')\<rparr>"

definition no_response :: js_error where
  "no_response = JsError ''TypeError'' ''Failed to fetch''"

definition reg_form :: "string \<Rightarrow> string list \<Rightarrow> reg_state" where
  "reg_form n files =
     \<lparr>name_value = n, email_value = ''ann@x.org '', proxy_value = [], salary_value = ''10'',
      image_files = files, preview_hidden = False, noprev_hidden = True,
      btnRegister_disabled = False, btnRegister_text = ''Register'', reg_toasts = [],
      reg_requests = [], reg_inflight = []\<rparr>"

definition dash_idle :: dash_state where
  "dash_idle =
     \<lparr>btnMark_disabled = False, attResult_text = [], dash_toasts = [], dash_requests = [],
      dash_inflight = []\<rparr>"

definition att_idle :: att_state where
  "att_idle =
     \<lparr>filterType_value = ''single'', singleDate_value = ''2024-05-01'', startDate_value = [],
      endDate_value = [], recordsBody_html = [], apply_disabled = False, att_toasts = [],
      att_requests = [], att_inflight = []\<rparr>"


section \<open>Strings and sorting: auxiliary facts\<close>

lemma startsWith_prefix: "startsWith hay needle = prefix needle hay"
  by (induction hay needle rule: startsWith.induct) auto

lemma js_includes_sublist: "js_includes hay needle = sublist needle hay"
  by (induction hay) (simp_all add: startsWith_prefix sublist_Cons_right)

lemma join_empty_sep: "join [] xs = concat xs"
  by (induction "[] :: string" xs rule: join.induct) simp_all

lemma set_sort_insert: "set (sort_insert c x xs) = insert x (set xs)"
  by (induction xs) auto

lemma set_js_sort: "set (js_sort c xs) = set xs"
  by (induction xs) (simp_all add: js_sort_def set_sort_insert)

lemma mset_sort_insert: "mset (sort_insert c x xs) = add_mset x (mset xs)"
  by (induction xs) auto

lemma mset_js_sort: "mset (js_sort c xs) = mset xs"
  by (induction xs) (simp_all add: js_sort_def mset_sort_insert)

text \<open>
  With a comparator whose relation "not after" is total and transitive, the result is in
  the comparator's order.
\<close>

lemma sorted_wrt_sort_insert:
  assumes total: "\<And>a b. c a b \<le> 0 \<or> c b a \<le> 0"
    and trans: "\<And>a b d. c a b \<le> 0 \<Longrightarrow> c b d \<le> 0 \<Longrightarrow> c a d \<le> 0"
    and "sorted_wrt (\<lambda>a b. c a b \<le> 0) xs"
  shows "sorted_wrt (\<lambda>a b. c a b \<le> 0) (sort_insert c x xs)"
  using assms(3)
proof (induction xs)
  case Nil
  then show ?case by simp
next
  case (Cons y ys)
  show ?case
  proof (cases "c x y \<le> 0")
    case True
    with Cons.prems trans show ?thesis by auto
  next
    case False
    with total have "c y x \<le> 0" by blast
    with False Cons show ?thesis by (auto simp: set_sort_insert)
  qed
qed

lemma sorted_wrt_js_sort:
  assumes total: "\<And>a b. c a b \<le> 0 \<or> c b a \<le> 0"
    and trans: "\<And>a b d. c a b \<le> 0 \<Longrightarrow> c b d \<le> 0 \<Longrightarrow> c a d \<le> 0"
  shows "sorted_wrt (\<lambda>a b. c a b \<le> 0) (js_sort c xs)"
proof (induction xs)
  case Nil
  show ?case by (simp add: js_sort_def)
next
  case (Cons x xs)
  have "js_sort c (x # xs) = sort_insert c x (js_sort c xs)"
    by (simp add: js_sort_def)
  with Cons show ?case
    using sorted_wrt_sort_insert [of c "js_sort c xs" x, OF total trans] by simp
qed

text \<open>
  Elements that the comparator ties with each other are never moved past each other.
\<close>

lemma filter_sort_insert:
  assumes tie: "\<And>a b. P a \<Longrightarrow> P b \<Longrightarrow> c a b \<le> 0"
  shows "filter P (sort_insert c x xs) = (if P x then x # filter P xs else filter P xs)"
  using tie by (induction xs) auto

lemma filter_js_sort:
  assumes tie: "\<And>a b. P a \<Longrightarrow> P b \<Longrightarrow> c a b \<le> 0"
  shows "filter P (js_sort c xs) = filter P xs"
proof (induction xs)
  case Nil
  show ?case by (simp add: js_sort_def)
next
  case (Cons x xs)
  have "js_sort c (x # xs) = sort_insert c x (js_sort c xs)"
    by (simp add: js_sort_def)
  with Cons show ?case
    by (simp add: filter_sort_insert [of P c, OF tie])
qed


section \<open>The users view: pagination, search, sorting\<close>

lemma filtered_render:
  "filtered (render st) =
     js_sort (\<lambda>a b. cmp st a b (sortKey st)) (filter (matches (q_value st)) (users st))"
  by (simp add: render_def Let_def)

lemma render_keeps_sort: "sortKey (render st) = sortKey st" "sortDir (render st) = sortDir st"
  by (simp_all add: render_def Let_def)

lemma page_in_range_render: "page_in_range (render st)"
  by (simp add: page_in_range_def render_def Let_def perPage_def)

text \<open>
  C1. Whatever triggers it (the loaded list or the failed load, input in the search box,
  a click on a header, on prev or on next), every render leaves the page index between 1
  and \<open>max(1, ceil(filteredCount / 12))\<close>, for every list of users and every earlier value
  of the page index.
\<close>

theorem page_clamped:
  "page_in_range (render st) \<and>
   page_in_range (users_loaded got st) \<and>
   page_in_range (q_input v st) \<and>
   page_in_range (header_click k st) \<and>
   page_in_range (prev_click st) \<and>
   page_in_range (next_click st)"
  by (simp add: page_in_range_render users_loaded_def q_input_def header_click_def
      prev_click_def next_click_def split: sum.split)

theorem page_clamped_witness:
  "page_in_range (next_click (next_click st13)) \<and>
   page (next_click (next_click st13)) = 2 \<and>
   pageInfo_text (render st13) = ''Page 1 / 2'' \<and>
   length (tableWrap_rows (render st13)) = 12 \<and>
   length (tableWrap_rows (next_click (render st13))) = 1"
proof -
  have "page_in_range (next_click (next_click st13))"
    using page_clamped [of "next_click st13"] by simp
  moreover have "page (next_click (next_click st13)) = 2"
    by code_simp
  moreover have "pageInfo_text (render st13) = ''Page 1 / 2''"
    by code_simp
  moreover have "length (tableWrap_rows (render st13)) = 12"
    by code_simp
  moreover have "length (tableWrap_rows (next_click (render st13))) = 1"
    by code_simp
  ultimately show ?thesis by simp
qed

lemma matches_sublist:
  "matches q u =
     sublist (toLowerCase q)
       (toLowerCase (String_of_int (user_id u) @ name u @ or_empty (email u)
                     @ or_empty (proxy u)))"
  by (simp add: matches_def Let_def js_includes_sublist)

text \<open>
  C2. The filter of the users view keeps a record exactly when the lowercased search text
  is a substring of the lowercased concatenation of the record's identifier, name, email
  (empty if absent) and proxy (empty if absent). So the rendered list holds exactly the
  users that match; the match does not depend on the case of the search text or of the
  fields; and the empty search text keeps every record.
\<close>

theorem users_filter:
  "matches q u =
     sublist (toLowerCase q)
       (toLowerCase (String_of_int (user_id u) @ name u @ or_empty (email u)
                     @ or_empty (proxy u))) \<and>
   set (filtered (render st)) = {w \<in> set (users st). matches (q_value st) w} \<and>
   (toLowerCase q = toLowerCase q' \<and>
    toLowerCase (String_of_int (user_id u) @ name u @ or_empty (email u) @ or_empty (proxy u))
      = toLowerCase (String_of_int (user_id u') @ name u' @ or_empty (email u')
                     @ or_empty (proxy u'))
    \<longrightarrow> matches q u = matches q' u') \<and>
   matches [] u"
  by (simp add: matches_sublist filtered_render set_js_sort) (simp add: toLowerCase_def)

theorem users_filter_witness:
  "toLowerCase ''AMY@X'' = toLowerCase ''amy@x'' \<and>
   toLowerCase (String_of_int (user_id u_amy) @ name u_amy @ or_empty (email u_amy)
                @ or_empty (proxy u_amy))
     = toLowerCase (String_of_int (user_id (u_amy\<lparr>name := ''AMY''\<rparr>))
                    @ name (u_amy\<lparr>name := ''AMY''\<rparr>)
                    @ or_empty (email (u_amy\<lparr>name := ''AMY''\<rparr>))
                    @ or_empty (proxy (u_amy\<lparr>name := ''AMY''\<rparr>))) \<and>
   matches ''AMY@X'' u_amy = matches ''amy@x'' (u_amy\<lparr>name := ''AMY''\<rparr>) \<and>
   matches ''AMY@X'' u_amy \<and>
   \<not> matches ''AMY@X'' u_bob \<and>
   matches ''2BOBP'' u_bob \<and>
   filtered (q_input ''1a'' st3) = [u_amy]"
proof -
  have h1: "toLowerCase ''AMY@X'' = toLowerCase ''amy@x''"
    by code_simp
  have h2: "toLowerCase (String_of_int (user_id u_amy) @ name u_amy @ or_empty (email u_amy)
                @ or_empty (proxy u_amy))
     = toLowerCase (String_of_int (user_id (u_amy\<lparr>name := ''AMY''\<rparr>))
                    @ name (u_amy\<lparr>name := ''AMY''\<rparr>)
                    @ or_empty (email (u_amy\<lparr>name := ''AMY''\<rparr>))
                    @ or_empty (proxy (u_amy\<lparr>name := ''AMY''\<rparr>)))"
    by code_simp
  have "matches ''AMY@X'' u_amy = matches ''amy@x'' (u_amy\<lparr>name := ''AMY''\<rparr>)"
    using users_filter [where q = "''AMY@X''" and q' = "''amy@x''" and u = u_amy
        and u' = "u_amy\<lparr>name := ''AMY''\<rparr>"] h1 h2
    by blast
  moreover have "matches ''AMY@X'' u_amy" "\<not> matches ''AMY@X'' u_bob"
    "matches ''2BOBP'' u_bob" "filtered (q_input ''1a'' st3) = [u_amy]"
    by code_simp+
  ultimately show ?thesis using h1 h2 by blast
qed

lemma cmp_total: "cmp st a b k \<le> 0 \<or> cmp st b a k \<le> 0"
  by (cases k) (auto simp: cmp_def Let_def)

lemma cmp_trans: "cmp st a b k \<le> 0 \<Longrightarrow> cmp st b d k \<le> 0 \<Longrightarrow> cmp st a d k \<le> 0"
  by (cases k) (auto simp: cmp_def Let_def split: if_splits)

lemma cmp_le_iff:
  "cmp st a b Key_user_id \<le> 0 \<longleftrightarrow>
     (if sortDir st = Asc then user_id a \<le> user_id b else user_id b \<le> user_id a)"
  "cmp st a b Key_name \<le> 0 \<longleftrightarrow>
     (if sortDir st = Asc then name a \<le> name b else name b \<le> name a)"
  by (auto simp: cmp_def Let_def)

lemma same_key_cmp: "same_key k w a \<Longrightarrow> same_key k w b \<Longrightarrow> cmp st a b k \<le> 0"
  by (cases k) (auto simp: same_key_def cmp_def Let_def)

lemma ordered_by_cmp:
  "ordered_by k (sortDir st) xs = sorted_wrt (\<lambda>a b. cmp st a b k \<le> 0) xs"
  by (cases k) (simp_all add: ordered_by_def cmp_le_iff sorted_map sorted_wrt_rev
      sorted_wrt_map)

lemma ordered_filtered_render: "ordered_by (sortKey st) (sortDir st) (filtered (render st))"
  unfolding ordered_by_cmp filtered_render
  by (rule sorted_wrt_js_sort) (rule cmp_total, erule (1) cmp_trans)

lemma stable_filtered_render:
  "filter (same_key (sortKey st) w) (filtered (render st)) =
   filter (same_key (sortKey st) w) (filter (matches (q_value st)) (users st))"
  unfolding filtered_render
  by (rule filter_js_sort) (erule (1) same_key_cmp)

text \<open>
  C3. A click on the header of column \<open>k\<close> leaves \<open>k\<close> as the sort key; the direction is
  the opposite of the old one when \<open>k\<close> was the sort key already, and ascending when it
  was not. The comparator puts \<open>a\<close> not after \<open>b\<close> exactly when the key of \<open>a\<close> is at most
  that of \<open>b\<close> (ascending) or at least that of \<open>b\<close> (descending). The rendered list is a
  rearrangement of the matching users, it is in the order of the key and the direction
  (also after the click), and the sort is stable: the users that agree with any user
  \<open>w\<close> on the key stand in the order they had.
\<close>

theorem header_sort:
  "sortKey (header_click k st) = k \<and>
   sortDir (header_click k st) =
     (if sortKey st = k then (if sortDir st = Asc then Desc else Asc) else Asc) \<and>
   (cmp st a b Key_user_id \<le> 0 \<longleftrightarrow>
      (if sortDir st = Asc then user_id a \<le> user_id b else user_id b \<le> user_id a)) \<and>
   (cmp st a b Key_name \<le> 0 \<longleftrightarrow>
      (if sortDir st = Asc then name a \<le> name b else name b \<le> name a)) \<and>
   ordered_by (sortKey st) (sortDir st) (filtered (render st)) \<and>
   ordered_by (sortKey (header_click k st)) (sortDir (header_click k st))
     (filtered (header_click k st)) \<and>
   filter (same_key (sortKey st) w) (filtered (render st)) =
     filter (same_key (sortKey st) w) (filter (matches (q_value st)) (users st)) \<and>
   mset (filtered (render st)) = mset (filter (matches (q_value st)) (users st))"
proof -
  have click: "sortKey (header_click k st) = k"
    "sortDir (header_click k st) =
       (if sortKey st = k then (if sortDir st = Asc then Desc else Asc) else Asc)"
    by (simp_all add: header_click_def render_keeps_sort)
  have ord: "ordered_by (sortKey (header_click k st)) (sortDir (header_click k st))
     (filtered (header_click k st))"
    unfolding header_click_def
    using ordered_filtered_render render_keeps_sort by metis
  show ?thesis
    using click ord ordered_filtered_render [of st] stable_filtered_render [of st w]
    by (simp add: cmp_le_iff filtered_render mset_js_sort)
qed

theorem header_sort_witness:
  "filtered (render st3) = [u_amy, u_zed, u_bob] \<and>
   sortKey (header_click Key_user_id st3) = Key_user_id \<and>
   sortDir (header_click Key_user_id st3) = Desc \<and>
   filtered (header_click Key_user_id st3) = [u_bob, u_amy, u_zed] \<and>
   ordered_by Key_user_id Desc [u_bob, u_amy, u_zed] \<and>
   sortKey (header_click Key_name st3) = Key_name \<and>
   sortDir (header_click Key_name st3) = Asc \<and>
   filtered (header_click Key_name st3) = [u_amy, u_zed, u_bob]"
proof -
  have dir: "sortKey st3 = Key_user_id" "sortDir st3 = Asc"
    by (simp_all add: st3_def initUsers_def)
  have f1: "filtered (render st3) = [u_amy, u_zed, u_bob]"
    and f2: "filtered (header_click Key_user_id st3) = [u_bob, u_amy, u_zed]"
    and f3: "filtered (header_click Key_name st3) = [u_amy, u_zed, u_bob]"
    by code_simp+
  note a = header_sort [where k = Key_user_id and st = st3 and a = u_amy and b = u_bob
      and w = u_amy]
  note b = header_sort [where k = Key_name and st = st3 and a = u_amy and b = u_bob
      and w = u_amy]
  from a have a1: "sortKey (header_click Key_user_id st3) = Key_user_id"
    and a2: "sortDir (header_click Key_user_id st3) =
       (if sortKey st3 = Key_user_id then (if sortDir st3 = Asc then Desc else Asc) else Asc)"
    and a3: "ordered_by (sortKey (header_click Key_user_id st3))
       (sortDir (header_click Key_user_id st3)) (filtered (header_click Key_user_id st3))"
    by blast+
  from b have b1: "sortKey (header_click Key_name st3) = Key_name"
    and b2: "sortDir (header_click Key_name st3) =
       (if sortKey st3 = Key_name then (if sortDir st3 = Asc then Desc else Asc) else Asc)"
    by blast+
  from a2 dir have a2': "sortDir (header_click Key_user_id st3) = Desc" by simp
  from b2 dir have b2': "sortDir (header_click Key_name st3) = Asc" by simp
  from a3 a1 a2' f2 have "ordered_by Key_user_id Desc [u_bob, u_amy, u_zed]" by simp
  with a1 a2' b1 b2' show ?thesis using f1 f2 f3 by simp
qed

section \<open>The fetch wrappers\<close>

text \<open>
  C7. For every response: when it is not successful, \<open>apiGET\<close> throws an error whose
  message is the status and the status text; when it is successful, \<open>apiGET\<close> gives what
  decoding the body as JSON gives if the content type contains \<open>application/json\<close>, and
  the body text otherwise (so on a successful response it throws only what reading the body
  throws). \<open>apiPOST\<close> does the same on a successful response; on an unsuccessful one the
  message of its error is the body text when there is a non-empty one, and the status and
  status text otherwise.
\<close>

theorem api_wrappers:
  "(\<not> ok res \<longrightarrow>
      apiGET (Inr res) = Inl (Error (digits (status res) @ '' '' @ statusText res))) \<and>
   (ok res \<and> sublist ''application/json'' (or_empty (content_type res)) \<longrightarrow>
      apiGET (Inr res) = (case body_json res of Inl e \<Rightarrow> Inl e | Inr j \<Rightarrow> Inr (Json j))) \<and>
   (ok res \<and> \<not> sublist ''application/json'' (or_empty (content_type res)) \<longrightarrow>
      apiGET (Inr res) = (case body_text res of Inl e \<Rightarrow> Inl e | Inr t \<Rightarrow> Inr (Text t))) \<and>
   (ok res \<and> apiGET (Inr res) = Inl e \<longrightarrow> body_json res = Inl e \<or> body_text res = Inl e) \<and>
   (ok res \<longrightarrow> apiPOST (Inr res) = apiGET (Inr res)) \<and>
   (\<not> ok res \<longrightarrow>
      apiPOST (Inr res) =
        Inl (Error (case body_text res of
                      Inr t \<Rightarrow> if t \<noteq> [] then t
                               else digits (status res) @ '' '' @ statusText res
                    | Inl e \<Rightarrow> digits (status res) @ '' '' @ statusText res)))"
  by (auto simp: apiGET_def apiPOST_def Let_def js_includes_sublist or_empty_def
      split: sum.splits)

theorem api_wrappers_witness:
  "\<not> ok (res_failed 404 ''Not Found'' ''no such user'' :: json response) \<and>
   apiGET (Inr (res_failed 404 ''Not Found'' ''no such user'' :: json response))
     = Inl (Error ''404 Not Found'') \<and>
   apiPOST (Inr (res_failed 404 ''Not Found'' ''no such user'' :: json response))
     = Inl (Error ''no such user'') \<and>
   apiPOST (Inr (res_failed 500 ''Internal Server Error'' [] :: json response))
     = Inl (Error ''500 Internal Server Error'') \<and>
   ok (res_json (JNum 1)) \<and>
   sublist ''application/json'' (or_empty (content_type (res_json (JNum 1)))) \<and>
   apiGET (Inr (res_json (JNum 1))) = Inr (Json (JNum 1)) \<and>
   apiPOST (Inr (res_json (JNum 1))) = Inr (Json (JNum 1)) \<and>
   ok (res_text ''done'' :: json response) \<and>
   \<not> sublist ''application/json'' (or_empty (content_type (res_text ''done'' :: json response))) \<and>
   apiGET (Inr (res_text ''done'' :: json response)) = Inr (Text ''done'') \<and>
   ok ((res_json (JNum 1))\<lparr>body_json := Inl (JsError ''SyntaxError'' ''Unexpected end'')\<rparr>) \<and>
   apiGET (Inr ((res_json (JNum 1))\<lparr>body_json := Inl (JsError ''SyntaxError'' ''Unexpected end'')\<rparr>))
     = Inl (JsError ''SyntaxError'' ''Unexpected end'') \<and>
   body_json ((res_json (JNum 1))\<lparr>body_json := Inl (JsError ''SyntaxError'' ''Unexpected end'')\<rparr>)
     = Inl (JsError ''SyntaxError'' ''Unexpected end'')"
proof -
  let ?f = "res_failed 404 ''Not Found'' ''no such user'' :: json response"
  let ?g = "res_failed 500 ''Internal Server Error'' [] :: json response"
  let ?j = "res_json (JNum 1)"
  let ?t = "res_text ''done'' :: json response"
  let ?e = "JsError ''SyntaxError'' ''Unexpected end''"
  let ?b = "(res_json (JNum 1))\<lparr>body_json := Inl ?e\<rparr>"
  have hf: "\<not> ok ?f" and hg: "\<not> ok ?g" and hj: "ok ?j" and ht: "ok ?t"
    by (simp_all add: res_failed_def res_json_def res_text_def)
  have sj: "sublist ''application/json'' (or_empty (content_type ?j))"
    and st: "\<not> sublist ''application/json'' (or_empty (content_type ?t))"
    by (simp_all add: res_json_def res_text_def or_empty_def js_includes_sublist [symmetric])
  have d: "digits (status ?f) @ '' '' @ statusText ?f = ''404 Not Found''"
    "digits (status ?g) @ '' '' @ statusText ?g = ''500 Internal Server Error''"
    by code_simp+
  have b: "body_text ?f = Inr ''no such user''" "body_text ?g = Inr []"
    "body_json ?j = Inr (JNum 1)" "body_text ?t = Inr ''done''"
    by (simp_all add: res_failed_def res_json_def res_text_def)
  from api_wrappers [of ?f] hf d b
  have 1: "apiGET (Inr ?f) = Inl (Error ''404 Not Found'')"
    and 2: "apiPOST (Inr ?f) = Inl (Error ''no such user'')"
    by simp_all
  from api_wrappers [of ?g] hg d b
  have 3: "apiPOST (Inr ?g) = Inl (Error ''500 Internal Server Error'')"
    by simp
  from api_wrappers [of ?j] hj sj b
  have 4: "apiGET (Inr ?j) = Inr (Json (JNum 1))"
    and 5: "apiPOST (Inr ?j) = Inr (Json (JNum 1))"
    by simp_all
  from api_wrappers [of ?t] ht st b
  have 6: "apiGET (Inr ?t) = Inr (Text ''done'')"
    by simp
  have hb: "ok ?b" and gb: "apiGET (Inr ?b) = Inl ?e"
    by code_simp+
  from api_wrappers [of ?b ?e] hb gb
  have 7: "body_json ?b = Inl ?e \<or> body_text ?b = Inl ?e"
    by blast
  have "body_text ?b \<noteq> Inl ?e"
    by (simp add: res_json_def)
  with 7 have 8: "body_json ?b = Inl ?e"
    by blast
  show ?thesis
    using hf hj ht sj st 1 2 3 4 5 6 hb gb 8 by simp
qed

section \<open>The attendance view\<close>

lemma message_row_inject: "message_row a = message_row b \<longleftrightarrow> a = b"
  by (simp add: message_row_def)

lemma record_rows_not_message: "concat (map (record_row fmt) (r # rs)) \<noteq> message_row m"
  by (simp add: record_row_def message_row_def)

lemma load_resume_rows:
  "(apiGET fetched = Inr (Json Att_other) \<or> apiGET fetched = Inr (Text t) \<longrightarrow>
      load_resume fmt fetched st = st\<lparr>recordsBody_html := message_row ''No data''\<rparr>) \<and>
   (apiGET fetched = Inr (Json (Att_array [])) \<longrightarrow>
      load_resume fmt fetched st = st\<lparr>recordsBody_html := message_row ''No records''\<rparr>) \<and>
   (apiGET fetched = Inl e \<longrightarrow>
      load_resume fmt fetched st =
        st\<lparr>recordsBody_html := message_row (''Error: '' @ message e),
           att_toasts := pushToast (''Failed to load attendance: '' @ message e) ''error''
                           (att_toasts st)\<rparr>) \<and>
   (apiGET fetched = Inr (Json (Att_array (r # rs))) \<longrightarrow>
      load_resume fmt fetched st =
        st\<lparr>recordsBody_html := concat (map (record_row fmt) (r # rs))\<rparr>) \<and>
   recordsBody_html (load st) = message_row ''Loading...'' \<and>
   distinct [message_row ''No data'', message_row ''No records'',
             message_row (''Error: '' @ m), message_row ''Loading...'',
             concat (map (record_row fmt) (r # rs))]"
  by (auto simp: load_resume_def load_def join_empty_sep message_row_inject
      record_rows_not_message record_rows_not_message [symmetric] Let_def
      simp del: concat.simps map_append list.map)

text \<open>
  C4. What the table body shows once the attendance fetch has settled, as the HTML that
  \<open>load\<close> assigns to it. A response that is not an array (other JSON, or text) gives the
  single row "No data" and changes nothing else, so no toast; the empty array gives the
  single row "No records" and no toast; an error thrown by the fetch wrapper gives the
  single row "Error: ..." with its message and pushes an error toast. A non-empty array
  gives one row for each record. The bodies of these outcomes, and the loading row that
  \<open>load\<close> shows before, differ from each other.
\<close>

theorem attendance_outcomes:
  \<open>(apiGET fetched = Inr (Json Att_other) \<or> apiGET fetched = Inr (Text t) \<longrightarrow>
      load_resume fmt fetched st =
        st\<lparr>recordsBody_html := ''<tr><td class="px-4 py-2" colspan="3">No data</td></tr>''\<rparr>) \<and>
   (apiGET fetched = Inr (Json (Att_array [])) \<longrightarrow>
      load_resume fmt fetched st =
        st\<lparr>recordsBody_html :=
             ''<tr><td class="px-4 py-2" colspan="3">No records</td></tr>''\<rparr>) \<and>
   (apiGET fetched = Inl e \<longrightarrow>
      load_resume fmt fetched st =
        st\<lparr>recordsBody_html :=
             ''<tr><td class="px-4 py-2" colspan="3">Error: '' @ message e @ ''</td></tr>'',
           att_toasts :=
             \<lparr>toast_msg = ''Failed to load attendance: '' @ message e,
              toast_type = ''error'', toast_ttl = 6000\<rparr> # att_toasts st\<rparr>) \<and>
   (apiGET fetched = Inr (Json (Att_array (r # rs))) \<longrightarrow>
      load_resume fmt fetched st =
        st\<lparr>recordsBody_html :=
             concat (map (\<lambda>x.
               ''\<newline>        <tr>\<newline>          <td class="px-4 py-2">'' @ att_name x
               @ ''</td>\<newline>          <td class="px-4 py-2">'' @ timestamp x
               @ ''</td>\<newline>          <td class="px-4 py-2">'' @ fmt (timestamp x)
               @ ''</td>\<newline>        </tr>\<newline>      '') (r # rs))\<rparr>) \<and>
   recordsBody_html (load st) = ''<tr><td class="px-4 py-2" colspan="3">Loading...</td></tr>'' \<and>
   distinct [''<tr><td class="px-4 py-2" colspan="3">No data</td></tr>'',
             ''<tr><td class="px-4 py-2" colspan="3">No records</td></tr>'',
             ''<tr><td class="px-4 py-2" colspan="3">Error: '' @ m @ ''</td></tr>'',
             ''<tr><td class="px-4 py-2" colspan="3">Loading...</td></tr>'',
             concat (map (\<lambda>x.
               ''\<newline>        <tr>\<newline>          <td class="px-4 py-2">'' @ att_name x
               @ ''</td>\<newline>          <td class="px-4 py-2">'' @ timestamp x
               @ ''</td>\<newline>          <td class="px-4 py-2">'' @ fmt (timestamp x)
               @ ''</td>\<newline>        </tr>\<newline>      '') (r # rs))]\<close>
  using load_resume_rows [of fetched t fmt st e r rs m,
      unfolded message_row_def record_row_def pushToast_def]
  by (simp del: concat.simps map_append list.map distinct.simps)

theorem attendance_outcomes_witness:
  \<open>apiGET (Inr (res_text ''<html>'' :: att_json response)) = Inr (Text ''<html>'') \<and>
   load_resume id (Inr (res_text ''<html>'')) att_idle
     = att_idle\<lparr>recordsBody_html :=
                   ''<tr><td class="px-4 py-2" colspan="3">No data</td></tr>''\<rparr> \<and>
   apiGET (Inr (res_json Att_other)) = Inr (Json Att_other) \<and>
   load_resume id (Inr (res_json Att_other)) att_idle
     = att_idle\<lparr>recordsBody_html :=
                   ''<tr><td class="px-4 py-2" colspan="3">No data</td></tr>''\<rparr> \<and>
   apiGET (Inr (res_json (Att_array []))) = Inr (Json (Att_array [])) \<and>
   load_resume id (Inr (res_json (Att_array []))) att_idle
     = att_idle\<lparr>recordsBody_html :=
                   ''<tr><td class="px-4 py-2" colspan="3">No records</td></tr>''\<rparr> \<and>
   att_toasts (load_resume id (Inr (res_json (Att_array []))) att_idle) = [] \<and>
   apiGET (Inl no_response :: js_error + att_json response) = Inl no_response \<and>
   load_resume id (Inl no_response) att_idle
     = att_idle\<lparr>recordsBody_html :=
                   ''<tr><td class="px-4 py-2" colspan="3">Error: Failed to fetch</td></tr>'',
                 att_toasts := [\<lparr>toast_msg = ''Failed to load attendance: Failed to fetch'',
                                 toast_type = ''error'', toast_ttl = 6000\<rparr>]\<rparr> \<and>
   apiGET (Inr (res_failed 500 ''Internal Server Error'' ''boom'' :: att_json response))
     = Inl (JsError ''Error'' ''500 Internal Server Error'') \<and>
   load_resume id (Inr (res_failed 500 ''Internal Server Error'' ''boom'')) att_idle
     = att_idle\<lparr>recordsBody_html :=
                   ''<tr><td class="px-4 py-2" colspan="3">Error: 500 Internal Server Error</td></tr>'',
                 att_toasts :=
                   [\<lparr>toast_msg = ''Failed to load attendance: 500 Internal Server Error'',
                     toast_type = ''error'', toast_ttl = 6000\<rparr>]\<rparr> \<and>
   apiGET (Inr (res_json (Att_array [\<lparr>att_name = ''Amy'', timestamp = ''2024-05-01T09:00''\<rparr>])))
     = Inr (Json (Att_array [\<lparr>att_name = ''Amy'', timestamp = ''2024-05-01T09:00''\<rparr>])) \<and>
   load_resume id
       (Inr (res_json (Att_array [\<lparr>att_name = ''Amy'', timestamp = ''2024-05-01T09:00''\<rparr>])))
       att_idle
     = att_idle\<lparr>recordsBody_html :=
         ''\<newline>        <tr>\<newline>          <td class="px-4 py-2">Amy</td>\<newline>          <td class="px-4 py-2">2024-05-01T09:00</td>\<newline>          <td class="px-4 py-2">2024-05-01T09:00</td>\<newline>        </tr>\<newline>      ''\<rparr> \<and>
   recordsBody_html (load att_idle) = ''<tr><td class="px-4 py-2" colspan="3">Loading...</td></tr>''\<close>
proof -
  let ?amy = "\<lparr>att_name = ''Amy'', timestamp = ''2024-05-01T09:00''\<rparr>"
  let ?err = "JsError ''Error'' ''500 Internal Server Error''"
  note inst = attendance_outcomes [where fmt = id and st = att_idle and r = ?amy
      and rs = "[]" and m = "[]"]
  have t: "apiGET (Inr (res_text ''<html>'' :: att_json response)) = Inr (Text ''<html>'')"
    and o: "apiGET (Inr (res_json Att_other)) = Inr (Json Att_other)"
    and n: "apiGET (Inr (res_json (Att_array []))) = Inr (Json (Att_array []))"
    and e: "apiGET (Inl no_response :: js_error + att_json response) = Inl no_response"
    and a: "apiGET (Inr (res_json (Att_array [?amy]))) = Inr (Json (Att_array [?amy]))"
    by (simp_all add: apiGET_def res_text_def res_json_def or_empty_def Let_def)
  have f: "apiGET (Inr (res_failed 500 ''Internal Server Error'' ''boom'' :: att_json response))
     = Inl ?err"
    by code_simp
  from inst [where fetched = "Inr (res_text ''<html>'')" and t = "''<html>''"] t
  have 1: \<open>load_resume id (Inr (res_text ''<html>'')) att_idle
     = att_idle\<lparr>recordsBody_html :=
                   ''<tr><td class="px-4 py-2" colspan="3">No data</td></tr>''\<rparr>\<close>
    by blast
  from inst [where fetched = "Inr (res_json Att_other)"] o
  have 2: \<open>load_resume id (Inr (res_json Att_other)) att_idle
     = att_idle\<lparr>recordsBody_html :=
                   ''<tr><td class="px-4 py-2" colspan="3">No data</td></tr>''\<rparr>\<close>
    by blast
  from inst [where fetched = "Inr (res_json (Att_array []))"] n
  have 3: \<open>load_resume id (Inr (res_json (Att_array []))) att_idle
     = att_idle\<lparr>recordsBody_html :=
                   ''<tr><td class="px-4 py-2" colspan="3">No records</td></tr>''\<rparr>\<close>
    by blast
  from inst [where fetched = "Inl no_response" and e = no_response] e
  have 4: \<open>load_resume id (Inl no_response) att_idle
     = att_idle\<lparr>recordsBody_html :=
          ''<tr><td class="px-4 py-2" colspan="3">Error: '' @ message no_response
          @ ''</td></tr>'',
          att_toasts :=
            \<lparr>toast_msg = ''Failed to load attendance: '' @ message no_response,
             toast_type = ''error'', toast_ttl = 6000\<rparr> # att_toasts att_idle\<rparr>\<close>
    by blast
  from inst [where fetched = "Inr (res_failed 500 ''Internal Server Error'' ''boom'')"
      and e = ?err] f
  have 5: \<open>load_resume id (Inr (res_failed 500 ''Internal Server Error'' ''boom'')) att_idle
     = att_idle\<lparr>recordsBody_html :=
          ''<tr><td class="px-4 py-2" colspan="3">Error: '' @ message ?err @ ''</td></tr>'',
          att_toasts :=
            \<lparr>toast_msg = ''Failed to load attendance: '' @ message ?err,
             toast_type = ''error'', toast_ttl = 6000\<rparr> # att_toasts att_idle\<rparr>\<close>
    by blast
  from inst [where fetched = "Inr (res_json (Att_array [?amy]))"] a
  have 6: \<open>load_resume id (Inr (res_json (Att_array [?amy]))) att_idle
     = att_idle\<lparr>recordsBody_html :=
         concat (map (\<lambda>x.
               ''\<newline>        <tr>\<newline>          <td class="px-4 py-2">'' @ att_name x
               @ ''</td>\<newline>          <td class="px-4 py-2">'' @ timestamp x
               @ ''</td>\<newline>          <td class="px-4 py-2">'' @ id (timestamp x)
               @ ''</td>\<newline>        </tr>\<newline>      '') [?amy])\<rparr>\<close>
    by blast
  from inst [where fetched = "Inl no_response"]
  have 7: \<open>recordsBody_html (load att_idle)
     = ''<tr><td class="px-4 py-2" colspan="3">Loading...</td></tr>''\<close>
    by blast
  show ?thesis
    unfolding 1 2 3 4 5 6 7 t o n e a f
    by (simp add: att_idle_def no_response_def)
qed


section \<open>The register form\<close>

lemma all_dropWhile: "(\<forall>x\<in>set (dropWhile P s). P x) \<longleftrightarrow> (\<forall>x\<in>set s. P x)"
  by (induction s) auto

lemma trim_Nil_iff: "trim s = [] \<longleftrightarrow> list_all isWhiteSpace s"
  by (simp add: trim_def dropWhile_eq_Nil_conv list_all_iff all_dropWhile)

lemma get_prop_truthy: "get_prop data key = Some v \<Longrightarrow> js_truthy data"
  by (cases data) simp_all

text \<open>
  C6. A submission needs a non-empty name (the listener's \<open>name\<close>, which is the trimmed
  value of the field) and a selected image file. A click with such a name and no file
  selected shows the toast "Upload a face image" and does nothing else, so it makes no
  network call. A click with no file selected never issues a request, whatever the name
  is. A click for which the name or the file is missing issues no request. A click with
  both issues exactly one request, a POST to \<open>/register\<close>.
\<close>

theorem register_needs_image:
  "(trim (name_value st) \<noteq> [] \<and> image_files st = [] \<longrightarrow>
      register_click st =
        st\<lparr>reg_toasts := pushToast ''Upload a face image'' ''error'' (reg_toasts st)\<rparr>) \<and>
   (image_files st = [] \<longrightarrow>
      reg_requests (register_click st) = reg_requests st \<and>
      reg_inflight (register_click st) = reg_inflight st) \<and>
   (trim (name_value st) = [] \<or> image_files st = [] \<longrightarrow>
      reg_requests (register_click st) = reg_requests st \<and>
      reg_inflight (register_click st) = reg_inflight st) \<and>
   (trim (name_value st) \<noteq> [] \<and> image_files st \<noteq> [] \<longrightarrow>
      (\<exists>fd. reg_requests (register_click st) =
              reg_requests st @ [apiPOST_request ''/register'' (Some fd)]))"
  by (auto simp: register_click_def Let_def split: list.splits)

theorem register_needs_image_witness:
  "trim (name_value (reg_form '' Ann '' [])) \<noteq> [] \<and>
   image_files (reg_form '' Ann '' []) = [] \<and>
   register_click (reg_form '' Ann '' [])
     = (reg_form '' Ann '' [])
         \<lparr>reg_toasts := [\<lparr>toast_msg = ''Upload a face image'', toast_type = ''error'',
                          toast_ttl = 6000\<rparr>]\<rparr> \<and>
   reg_requests (register_click (reg_form '' Ann '' [])) = [] \<and>
   trim (name_value (reg_form ''  '' [''ann.png''])) = [] \<and>
   reg_requests (register_click (reg_form ''  '' [''ann.png''])) = [] \<and>
   image_files (reg_form '' Ann '' [''ann.png'']) \<noteq> [] \<and>
   reg_requests (register_click (reg_form '' Ann '' [''ann.png'']))
     = [apiPOST_request ''/register''
          (Some [(''name'', Field ''Ann''), (''email'', Field ''ann@x.org''),
                 (''salary'', Field ''10''), (''image'', File ''ann.png'')])]"
proof -
  have n1: "trim (name_value (reg_form '' Ann '' [])) \<noteq> []"
    and n2: "trim (name_value (reg_form ''  '' [''ann.png''])) = []"
    by code_simp+
  have f1: "image_files (reg_form '' Ann '' []) = []"
    and f2: "image_files (reg_form '' Ann '' [''ann.png'']) \<noteq> []"
    by (simp_all add: reg_form_def)
  have r0: "reg_requests (reg_form '' Ann '' []) = []"
    "reg_toasts (reg_form '' Ann '' []) = []"
    "reg_requests (reg_form ''  '' [''ann.png'']) = []"
    by (simp_all add: reg_form_def)
  from register_needs_image [of "reg_form '' Ann '' []"] n1 f1
  have 1: "register_click (reg_form '' Ann '' [])
     = (reg_form '' Ann '' [])
         \<lparr>reg_toasts := pushToast ''Upload a face image'' ''error''
                          (reg_toasts (reg_form '' Ann '' []))\<rparr>"
    and 2: "reg_requests (register_click (reg_form '' Ann '' []))
              = reg_requests (reg_form '' Ann '' [])"
    by blast+
  from register_needs_image [of "reg_form ''  '' [''ann.png'']"] n2
  have 3: "reg_requests (register_click (reg_form ''  '' [''ann.png'']))
             = reg_requests (reg_form ''  '' [''ann.png''])"
    by blast
  have 4: "reg_requests (register_click (reg_form '' Ann '' [''ann.png'']))
     = [apiPOST_request ''/register''
          (Some [(''name'', Field ''Ann''), (''email'', Field ''ann@x.org''),
                 (''salary'', Field ''10''), (''image'', File ''ann.png'')])]"
    by code_simp
  show ?thesis
    using n1 n2 f1 f2 1 2 3 4 r0 by (simp add: pushToast_def)
qed

text \<open>
  C10. The name is checked first and on its trimmed value: a click while the name field
  holds nothing but white space (or nothing at all) shows the toast "Name is required" and
  does nothing else, so it makes no network call, whether or not an image is selected.
\<close>

theorem register_name_first:
  "list_all isWhiteSpace (name_value st) \<longrightarrow>
     register_click st =
       st\<lparr>reg_toasts := pushToast ''Name is required'' ''error'' (reg_toasts st)\<rparr> \<and>
     reg_requests (register_click st) = reg_requests st \<and>
     reg_inflight (register_click st) = reg_inflight st"
  by (simp add: register_click_def trim_Nil_iff [symmetric])

theorem register_name_first_witness:
  "list_all isWhiteSpace (name_value (reg_form [CHR 0x20, CHR 0x09] [])) \<and>
   register_click (reg_form [CHR 0x20, CHR 0x09] [])
     = (reg_form [CHR 0x20, CHR 0x09] [])
         \<lparr>reg_toasts := [\<lparr>toast_msg = ''Name is required'', toast_type = ''error'',
                          toast_ttl = 6000\<rparr>]\<rparr> \<and>
   reg_requests (register_click (reg_form [CHR 0x20, CHR 0x09] [])) = [] \<and>
   list_all isWhiteSpace (name_value (reg_form [] [''ann.png''])) \<and>
   reg_toasts (register_click (reg_form [] [''ann.png'']))
     = [\<lparr>toast_msg = ''Name is required'', toast_type = ''error'', toast_ttl = 6000\<rparr>] \<and>
   reg_requests (register_click (reg_form [] [''ann.png''])) = []"
proof -
  have w1: "list_all isWhiteSpace (name_value (reg_form [CHR 0x20, CHR 0x09] []))"
    and w2: "list_all isWhiteSpace (name_value (reg_form [] [''ann.png'']))"
    by code_simp+
  have r0: "reg_requests (reg_form [CHR 0x20, CHR 0x09] []) = []"
    "reg_toasts (reg_form [CHR 0x20, CHR 0x09] []) = []"
    "reg_requests (reg_form [] [''ann.png'']) = []"
    "reg_toasts (reg_form [] [''ann.png'']) = []"
    by (simp_all add: reg_form_def)
  from register_name_first [of "reg_form [CHR 0x20, CHR 0x09] []"] w1
  have 1: "register_click (reg_form [CHR 0x20, CHR 0x09] [])
     = (reg_form [CHR 0x20, CHR 0x09] [])
         \<lparr>reg_toasts := pushToast ''Name is required'' ''error''
                          (reg_toasts (reg_form [CHR 0x20, CHR 0x09] []))\<rparr>"
    and 2: "reg_requests (register_click (reg_form [CHR 0x20, CHR 0x09] []))
              = reg_requests (reg_form [CHR 0x20, CHR 0x09] [])"
    by blast+
  from register_name_first [of "reg_form [] [''ann.png'']"] w2
  have 3: "register_click (reg_form [] [''ann.png''])
     = (reg_form [] [''ann.png''])
         \<lparr>reg_toasts := pushToast ''Name is required'' ''error''
                          (reg_toasts (reg_form [] [''ann.png'']))\<rparr>"
    and 4: "reg_requests (register_click (reg_form [] [''ann.png'']))
              = reg_requests (reg_form [] [''ann.png''])"
    by blast+
  show ?thesis
    using w1 w2 2 4 r0 unfolding 1 3 by (simp add: pushToast_def)
qed

text \<open>
  C8. When the register POST has settled: if it succeeded and the \<open>status\<close> of its body is
  \<open>'success'\<close>, the name, email, proxy and salary fields and the image selection are
  emptied and the preview is hidden behind its placeholder (and the success toast is shown);
  in every other case (another status, another body, a thrown error) no field and no part
  of the preview changes: one error toast is pushed, and the button is reset.
\<close>

theorem register_clears_on_success:
  "(register_succeeded fetched \<longrightarrow>
      register_resume fetched st =
        st\<lparr>reg_toasts := pushToast ''Registered successfully'' ''info'' (reg_toasts st),
           name_value := [], email_value := [], proxy_value := [], salary_value := [],
           image_files := [], preview_hidden := True, noprev_hidden := False,
           btnRegister_disabled := False, btnRegister_text := ''Register''\<rparr>) \<and>
   (\<not> register_succeeded fetched \<longrightarrow>
      (\<exists>m. register_resume fetched st =
             st\<lparr>reg_toasts := pushToast m ''error'' (reg_toasts st),
                btnRegister_disabled := False, btnRegister_text := ''Register''\<rparr>))"
  by (auto simp: register_succeeded_def register_resume_def Let_def get_prop_truthy
      split: sum.splits)

theorem register_clears_on_success_witness:
  "register_succeeded (Inr (res_json (JObj [(''status'', JStr ''success'')]))) \<and>
   register_resume (Inr (res_json (JObj [(''status'', JStr ''success'')])))
       (reg_form ''Ann'' [''ann.png''])
     = (reg_form ''Ann'' [''ann.png''])
         \<lparr>reg_toasts := [\<lparr>toast_msg = ''Registered successfully'', toast_type = ''info'',
                          toast_ttl = 6000\<rparr>],
          name_value := [], email_value := [], proxy_value := [], salary_value := [],
          image_files := [], preview_hidden := True, noprev_hidden := False\<rparr> \<and>
   \<not> register_succeeded
       (Inr (res_json (JObj [(''status'', JStr ''error''), (''message'', JStr ''No face'')]))) \<and>
   register_resume
       (Inr (res_json (JObj [(''status'', JStr ''error''), (''message'', JStr ''No face'')])))
       (reg_form ''Ann'' [''ann.png''])
     = (reg_form ''Ann'' [''ann.png''])
         \<lparr>reg_toasts := [\<lparr>toast_msg = ''Registration error: No face'', toast_type = ''error'',
                          toast_ttl = 6000\<rparr>]\<rparr> \<and>
   \<not> register_succeeded (Inr (res_failed 500 ''Internal Server Error'' [])) \<and>
   register_resume (Inr (res_failed 500 ''Internal Server Error'' []))
       (reg_form ''Ann'' [''ann.png''])
     = (reg_form ''Ann'' [''ann.png''])
         \<lparr>reg_toasts := [\<lparr>toast_msg = ''Register failed: 500 Internal Server Error'',
                          toast_type = ''error'', toast_ttl = 6000\<rparr>]\<rparr>"
proof -
  let ?st = "reg_form ''Ann'' [''ann.png'']"
  let ?ok = "Inr (res_json (JObj [(''status'', JStr ''success'')])) :: js_error + json response"
  let ?no = "Inr (res_json (JObj [(''status'', JStr ''error''), (''message'', JStr ''No face'')]))
               :: js_error + json response"
  let ?bad = "Inr (res_failed 500 ''Internal Server Error'' []) :: js_error + json response"
  have s1: "register_succeeded ?ok"
    and s2: "\<not> register_succeeded ?no"
    and s3: "\<not> register_succeeded ?bad"
    by code_simp+
  have t2: "reg_toasts (register_resume ?no ?st)
      = [\<lparr>toast_msg = ''Registration error: No face'', toast_type = ''error'',
           toast_ttl = 6000\<rparr>]"
    and t3: "reg_toasts (register_resume ?bad ?st)
      = [\<lparr>toast_msg = ''Register failed: 500 Internal Server Error'', toast_type = ''error'',
           toast_ttl = 6000\<rparr>]"
    by code_simp+
  from register_clears_on_success [of ?ok ?st] s1
  have 1: "register_resume ?ok ?st =
        ?st\<lparr>reg_toasts := pushToast ''Registered successfully'' ''info'' (reg_toasts ?st),
           name_value := [], email_value := [], proxy_value := [], salary_value := [],
           image_files := [], preview_hidden := True, noprev_hidden := False,
           btnRegister_disabled := False, btnRegister_text := ''Register''\<rparr>"
    by blast
  from register_clears_on_success [of ?no ?st] s2
  obtain m2 where 2: "register_resume ?no ?st =
        ?st\<lparr>reg_toasts := pushToast m2 ''error'' (reg_toasts ?st),
            btnRegister_disabled := False, btnRegister_text := ''Register''\<rparr>"
    by blast
  from register_clears_on_success [of ?bad ?st] s3
  obtain m3 where 3: "register_resume ?bad ?st =
        ?st\<lparr>reg_toasts := pushToast m3 ''error'' (reg_toasts ?st),
            btnRegister_disabled := False, btnRegister_text := ''Register''\<rparr>"
    by blast
  from 2 t2 have m2: "m2 = ''Registration error: No face''"
    by (simp add: pushToast_def reg_form_def)
  from 3 t3 have m3: "m3 = ''Register failed: 500 Internal Server Error''"
    by (simp add: pushToast_def reg_form_def)
  show ?thesis
    using s1 s2 s3 unfolding 1 2 3 m2 m3
    by (simp add: reg_form_def pushToast_def)
qed


section \<open>The mark-attendance button\<close>

text \<open>
  C9. A click on the enabled mark-attendance button, with nothing in flight, issues a POST
  to \<open>/mark_attendance\<close> first (the requests are written out: method, path, no query,
  no body, same-origin credentials). When the POST has settled: if it succeeded, its result is
  shown as \<open>JSON.stringify(result, null, 2)\<close>, no GET is issued and nothing remains in
  flight; if it threw, and only then, a GET to \<open>/mark_attendance\<close> is issued. When that GET
  has settled: if it succeeded, its result is shown in the same way; if it threw too, the
  message of the GET's error is shown and an error toast is pushed.
\<close>

theorem mark_post_then_get:
  "dash_inflight st = [] \<and> \<not> btnMark_disabled st \<longrightarrow>
     (let s1 = dash_step Click st;
          s2 = dash_step (Settle fp) s1;
          s3 = dash_step (Settle fg) s2
      in dash_requests s1 =
           dash_requests st
           @ [\<lparr>req_method = POST, req_path = ''/mark_attendance'', req_query = [],
               req_body = None, req_credentials = ''same-origin''\<rparr>] \<and>
         (case apiPOST fp of
            Inr v \<Rightarrow>
              dash_requests s2 = dash_requests s1 \<and> dash_inflight s2 = [] \<and>
              attResult_text s2 = JSON_stringify (js_value v) \<and>
              dash_toasts s2 =
                \<lparr>toast_msg = ''Attendance processed'', toast_type = ''info'',
                 toast_ttl = 6000\<rparr> # dash_toasts st \<and>
              s3 = s2
          | Inl e \<Rightarrow>
              dash_requests s2 =
                dash_requests s1
                @ [\<lparr>req_method = GET, req_path = ''/mark_attendance'', req_query = [],
                    req_body = None, req_credentials = ''same-origin''\<rparr>] \<and>
              dash_requests s3 = dash_requests s2 \<and>
              (case apiGET fg of
                 Inr v \<Rightarrow>
                   attResult_text s3 = JSON_stringify (js_value v) \<and>
                   dash_toasts s3 =
                     \<lparr>toast_msg = ''Attendance processed'', toast_type = ''info'',
                      toast_ttl = 6000\<rparr> # dash_toasts st
               | Inl e' \<Rightarrow>
                   attResult_text s3 = message e' \<and>
                   dash_toasts s3 =
                     \<lparr>toast_msg = ''Attendance failed: '' @ message e',
                      toast_type = ''error'', toast_ttl = 6000\<rparr> # dash_toasts st)))"
  by (simp add: dash_step_def mark_click_def mark_resume_post_def mark_resume_get_def
      mark_show_def mark_failed_def mark_finally_def apiPOST_request_def apiGET_request_def
      pushToast_def Let_def split: sum.splits)

theorem mark_post_then_get_witness:
  \<open>dash_inflight dash_idle = [] \<and>
   \<not> btnMark_disabled dash_idle \<and>
   dash_requests (dash_step Click dash_idle)
     = [\<lparr>req_method = POST, req_path = ''/mark_attendance'', req_query = [],
         req_body = None, req_credentials = ''same-origin''\<rparr>] \<and>
   dash_requests
     (dash_step (Settle (Inr (res_json (JObj [(''marked'', JNum 3)]))))
        (dash_step Click dash_idle))
     = [\<lparr>req_method = POST, req_path = ''/mark_attendance'', req_query = [],
         req_body = None, req_credentials = ''same-origin''\<rparr>] \<and>
   attResult_text
     (dash_step (Settle (Inr (res_json (JObj [(''marked'', JNum 3)]))))
        (dash_step Click dash_idle))
     = ''{\<newline>  "marked": 3\<newline>}'' \<and>
   dash_toasts
     (dash_step (Settle (Inr (res_json (JObj [(''marked'', JNum 3)]))))
        (dash_step Click dash_idle))
     = [\<lparr>toast_msg = ''Attendance processed'', toast_type = ''info'', toast_ttl = 6000\<rparr>] \<and>
   dash_requests
     (dash_step (Settle (Inr (res_failed 405 ''Method Not Allowed'' [])))
        (dash_step Click dash_idle))
     = [\<lparr>req_method = POST, req_path = ''/mark_attendance'', req_query = [],
         req_body = None, req_credentials = ''same-origin''\<rparr>,
        \<lparr>req_method = GET, req_path = ''/mark_attendance'', req_query = [],
         req_body = None, req_credentials = ''same-origin''\<rparr>] \<and>
   attResult_text
     (dash_step (Settle (Inr (res_text ''ok'')))
        (dash_step (Settle (Inr (res_failed 405 ''Method Not Allowed'' [])))
           (dash_step Click dash_idle)))
     = ''"ok"'' \<and>
   attResult_text
     (dash_step (Settle (Inl no_response))
        (dash_step (Settle (Inr (res_failed 405 ''Method Not Allowed'' [])))
           (dash_step Click dash_idle)))
     = ''Failed to fetch'' \<and>
   dash_toasts
     (dash_step (Settle (Inl no_response))
        (dash_step (Settle (Inr (res_failed 405 ''Method Not Allowed'' [])))
           (dash_step Click dash_idle)))
     = [\<lparr>toast_msg = ''Attendance failed: Failed to fetch'', toast_type = ''error'',
          toast_ttl = 6000\<rparr>]\<close>
proof -
  let ?ok = "Inr (res_json (JObj [(''marked'', JNum 3)])) :: js_error + json response"
  let ?no = "Inr (res_failed 405 ''Method Not Allowed'' []) :: js_error + json response"
  let ?txt = "Inr (res_text ''ok'') :: js_error + json response"
  let ?net = "Inl no_response :: js_error + json response"
  have h: "dash_inflight dash_idle = [] \<and> \<not> btnMark_disabled dash_idle"
    and d0: "dash_requests dash_idle = []" "dash_toasts dash_idle = []"
    by (simp_all add: dash_idle_def)
  have p1: "apiPOST ?ok = Inr (Json (JObj [(''marked'', JNum 3)]))"
    and p2: "apiPOST ?no = Inl (Error ''405 Method Not Allowed'')"
    and g1: "apiGET ?txt = Inr (Text ''ok'')"
    and g2: "apiGET ?net = Inl no_response"
    by code_simp+
  have j1: \<open>JSON_stringify (js_value (Json (JObj [(''marked'', JNum 3)])))
              = ''{\<newline>  "marked": 3\<newline>}''\<close>
    and j2: \<open>JSON_stringify (js_value (Text ''ok'')) = ''"ok"''\<close>
    by code_simp+
  note a = mark_post_then_get [of dash_idle ?ok ?net, unfolded Let_def p1, simplified]
  note b = mark_post_then_get [of dash_idle ?no ?txt, unfolded Let_def p2 g1, simplified]
  note c = mark_post_then_get [of dash_idle ?no ?net, unfolded Let_def p2 g2, simplified]
  show ?thesis
    using h a b c d0 j1 j2 by (simp add: pushToast_def no_response_def)
qed

section \<open>Buttons and requests in flight\<close>

lemma reg_step_held:
  "held (reg_inflight s) (btnRegister_disabled s) \<Longrightarrow>
   held (reg_inflight (reg_step ev s)) (btnRegister_disabled (reg_step ev s))"
  by (cases ev)
    (auto simp: held_def reg_step_def register_click_def register_resume_def Let_def
      split: list.splits sum.splits)

lemma reg_run_held:
  "held (reg_inflight s) (btnRegister_disabled s) \<Longrightarrow>
   held (reg_inflight (reg_run s evs)) (btnRegister_disabled (reg_run s evs))"
  unfolding reg_run_def
  by (induction evs arbitrary: s) (simp_all add: reg_step_held)

lemma dash_step_held:
  "held (dash_inflight s) (btnMark_disabled s) \<Longrightarrow>
   held (dash_inflight (dash_step ev s)) (btnMark_disabled (dash_step ev s))"
  by (cases ev)
    (auto simp: held_def dash_step_def mark_click_def mark_resume_post_def
      mark_resume_get_def mark_show_def mark_failed_def mark_finally_def Let_def
      split: list.splits sum.splits)

lemma dash_run_held:
  "held (dash_inflight s) (btnMark_disabled s) \<Longrightarrow>
   held (dash_inflight (dash_run s evs)) (btnMark_disabled (dash_run s evs))"
  unfolding dash_run_def
  by (induction evs arbitrary: s) (simp_all add: dash_step_held)

lemma att_step_apply: "apply_disabled (att_step fmt ev s) = apply_disabled s"
  by (cases ev)
    (auto simp: att_step_def load_def load_resume_def Let_def
      split: list.splits sum.splits api_value.splits att_json.splits)

lemma att_run_apply: "apply_disabled (att_run fmt s evs) = apply_disabled s"
  unfolding att_run_def
  by (induction evs arbitrary: s) (simp_all add: att_step_apply)

lemma reg_held_facts:
  assumes "held (reg_inflight s) (btnRegister_disabled s)"
  shows "length (reg_inflight s) \<le> 1"
    and "reg_inflight s \<noteq> [] \<Longrightarrow> btnRegister_disabled s"
    and "reg_inflight s \<noteq> [] \<Longrightarrow> reg_step Click s = s"
    and "reg_inflight s \<noteq> [] \<Longrightarrow> reg_inflight (reg_step (Settle f) s) = []"
    and "reg_inflight s \<noteq> [] \<Longrightarrow> \<not> btnRegister_disabled (reg_step (Settle f) s)"
  using assms
  by (auto simp: held_def reg_step_def register_resume_def Let_def
      split: list.splits sum.splits)

lemma dash_held_facts:
  assumes "held (dash_inflight s) (btnMark_disabled s)"
  shows "length (dash_inflight s) \<le> 1"
    and "dash_inflight s \<noteq> [] \<Longrightarrow> btnMark_disabled s"
    and "dash_inflight s \<noteq> [] \<Longrightarrow> dash_step Click s = s"
    and "dash_inflight s \<noteq> [] \<Longrightarrow>
           (if dash_inflight (dash_step (Settle f) s) = []
            then \<not> btnMark_disabled (dash_step (Settle f) s)
            else btnMark_disabled (dash_step (Settle f) s))"
  using assms
  by (auto simp: held_def dash_step_def mark_resume_post_def
      mark_resume_get_def mark_show_def mark_failed_def mark_finally_def Let_def
      split: list.splits sum.splits)

text \<open>
  C5, for the two buttons that submit. Start the register view with nothing in flight and let any sequence of
  clicks and settled requests happen. Then at most one request is in flight; while one is,
  the register button is disabled and a click on it changes nothing; and when that request
  settles, nothing is in flight and the button is enabled again. The same holds for the
  mark-attendance button, whose click may have two requests in turn: when the request in
  flight settles, either nothing is in flight and the button is enabled again, or the
  fallback GET is in flight and the button is still disabled. The attendance view never
  changes whether its apply button is disabled.
\<close>

theorem submit_buttons_disabled_in_flight:
  "(reg_inflight st = [] \<longrightarrow>
      (let s = reg_run st evs
       in length (reg_inflight s) \<le> 1 \<and>
          (reg_inflight s \<noteq> [] \<longrightarrow>
             btnRegister_disabled s \<and> reg_step Click s = s \<and>
             reg_inflight (reg_step (Settle f) s) = [] \<and>
             \<not> btnRegister_disabled (reg_step (Settle f) s)))) \<and>
   (dash_inflight dst = [] \<longrightarrow>
      (let s = dash_run dst devs
       in length (dash_inflight s) \<le> 1 \<and>
          (dash_inflight s \<noteq> [] \<longrightarrow>
             btnMark_disabled s \<and> dash_step Click s = s \<and>
             (if dash_inflight (dash_step (Settle f) s) = []
              then \<not> btnMark_disabled (dash_step (Settle f) s)
              else btnMark_disabled (dash_step (Settle f) s))))) \<and>
   apply_disabled (att_run fmt ast aevs) = apply_disabled ast"
proof -
  have reg: "held (reg_inflight (reg_run st evs)) (btnRegister_disabled (reg_run st evs))"
    if "reg_inflight st = []"
    using that by (intro reg_run_held) (simp add: held_def)
  have dash: "held (dash_inflight (dash_run dst devs)) (btnMark_disabled (dash_run dst devs))"
    if "dash_inflight dst = []"
    using that by (intro dash_run_held) (simp add: held_def)
  show ?thesis
    using reg_held_facts [OF reg] dash_held_facts [OF dash] att_run_apply [of fmt ast aevs]
    by (simp add: Let_def)
qed

theorem submit_buttons_disabled_in_flight_witness:
  "reg_inflight (reg_form ''Ann'' [''ann.png'']) = [] \<and>
   reg_inflight (reg_run (reg_form ''Ann'' [''ann.png'']) [Click, Click]) \<noteq> [] \<and>
   length (reg_inflight (reg_run (reg_form ''Ann'' [''ann.png'']) [Click, Click])) = 1 \<and>
   btnRegister_disabled (reg_run (reg_form ''Ann'' [''ann.png'']) [Click, Click]) \<and>
   \<not> btnRegister_disabled
       (reg_step (Settle (Inr (res_failed 405 ''Method Not Allowed'' [])))
          (reg_run (reg_form ''Ann'' [''ann.png'']) [Click, Click])) \<and>
   dash_inflight dash_idle = [] \<and>
   dash_inflight (dash_run dash_idle [Click, Click]) \<noteq> [] \<and>
   length (dash_inflight (dash_run dash_idle [Click, Click])) = 1 \<and>
   btnMark_disabled (dash_run dash_idle [Click, Click]) \<and>
   dash_inflight
     (dash_step (Settle (Inr (res_failed 405 ''Method Not Allowed'' [])))
        (dash_run dash_idle [Click, Click])) \<noteq> [] \<and>
   btnMark_disabled
     (dash_step (Settle (Inr (res_failed 405 ''Method Not Allowed'' [])))
        (dash_run dash_idle [Click, Click])) \<and>
   dash_inflight
     (dash_run dash_idle [Click, Settle (Inr (res_failed 405 ''Method Not Allowed'' []))])
     \<noteq> [] \<and>
   dash_inflight
     (dash_step (Settle (Inr (res_failed 405 ''Method Not Allowed'' [])))
        (dash_run dash_idle [Click, Settle (Inr (res_failed 405 ''Method Not Allowed'' []))]))
     = [] \<and>
   \<not> btnMark_disabled
     (dash_step (Settle (Inr (res_failed 405 ''Method Not Allowed'' [])))
        (dash_run dash_idle [Click, Settle (Inr (res_failed 405 ''Method Not Allowed'' []))]))"
proof -
  let ?f = "Inr (res_failed 405 ''Method Not Allowed'' []) :: js_error + json response"
  let ?r = "reg_form ''Ann'' [''ann.png'']"
  have r0: "reg_inflight ?r = []" and d0: "dash_inflight dash_idle = []"
    by (simp_all add: reg_form_def dash_idle_def)
  have r1: "reg_inflight (reg_run ?r [Click, Click]) \<noteq> []"
    and d1: "dash_inflight (dash_run dash_idle [Click, Click]) \<noteq> []"
    and d2: "dash_inflight (dash_run dash_idle [Click, Settle ?f]) \<noteq> []"
    and l1: "length (reg_inflight (reg_run ?r [Click, Click])) = 1"
    and l2: "length (dash_inflight (dash_run dash_idle [Click, Click])) = 1"
    and d3: "dash_inflight (dash_step (Settle ?f) (dash_run dash_idle [Click, Click])) \<noteq> []"
    and d4: "dash_inflight (dash_step (Settle ?f) (dash_run dash_idle [Click, Settle ?f])) = []"
    by code_simp+
  note a = submit_buttons_disabled_in_flight [where st = ?r and evs = "[Click, Click]"
      and dst = dash_idle and devs = "[Click, Click]" and f = ?f and fmt = id
      and ast = att_idle and aevs = "[]", unfolded Let_def]
  note b = submit_buttons_disabled_in_flight [where st = ?r and evs = "[Click, Click]"
      and dst = dash_idle and devs = "[Click, Settle ?f]" and f = ?f and fmt = id
      and ast = att_idle and aevs = "[]", unfolded Let_def]
  from a r0 r1 d0 d1 d3
  have 1: "btnRegister_disabled (reg_run ?r [Click, Click])"
    and 2: "\<not> btnRegister_disabled (reg_step (Settle ?f) (reg_run ?r [Click, Click]))"
    and 3: "btnMark_disabled (dash_run dash_idle [Click, Click])"
    and 4: "btnMark_disabled (dash_step (Settle ?f) (dash_run dash_idle [Click, Click]))"
    by simp_all
  from b d0 d2 d4
  have 5: "\<not> btnMark_disabled (dash_step (Settle ?f) (dash_run dash_idle [Click, Settle ?f]))"
    by simp
  show ?thesis
    using r0 r1 l1 1 2 d0 d1 l2 3 d3 4 d2 d4 5 by simp
qed

text \<open>
  C5 as first stated fails for the apply button of the attendance view: \<open>load\<close> never
  disables it. After one click a request is in flight and the button is not disabled, and
  a second click then starts a second request while the first is still in flight.
\<close>

theorem apply_button_counterexample:
  "\<not> apply_disabled (att_run id att_idle [Click]) \<and>
   length (att_inflight (att_run id att_idle [Click])) = 1 \<and>
   length (att_inflight (att_run id att_idle [Click, Click])) = 2 \<and>
   length (att_requests (att_run id att_idle [Click, Click])) = 2"
  by (simp add: att_run_def att_step_def load_def att_idle_def Let_def)

end
